theory Spec2Isabelle
  imports Complex_Main
begin

section \<open>Preliminaries: identifiers, time and JavaScript numbers\<close>

text \<open>
  Document identifiers (MongoDB \<open>ObjectId\<close>s) are natural numbers; two identifiers denote
  the same document exactly when they are equal.  A \<open>Date\<close> is its number of milliseconds
  since the epoch.  Vote counts, streaks and thresholds are integers in the source; the
  quotients the source forms from them (\<open>a / total * 100\<close>, \<open>sum / total\<close>) are computed on
  exact rationals, and \<open>Math.round\<close> rounds to the nearest integer with halves going up.
\<close>

type_synonym oid = nat
type_synonym time = int

definition Math_round :: "rat \<Rightarrow> int" where
  "Math_round x = \<lfloor>x + 1 / 2\<rfloor>"

text \<open>Milliseconds per day, the constant \<open>1000 * 60 * 60 * 24\<close> of \<open>updateStreak\<close>.\<close>

definition msPerDay :: int where
  "msPerDay = 1000 * 60 * 60 * 24"

text \<open>
  \<open>date.setHours(0, 0, 0, 0)\<close>: the start of the calendar day of a timestamp, for a host
  whose local time is UTC.
\<close>

definition setHours0 :: "time \<Rightarrow> time" where
  "setHours0 t = t - t mod msPerDay"

section \<open>Questions and their vote tally (models/Question.js)\<close>

datatype choice = optionA | optionB

datatype moderationStatus = pending | approved | rejected

record voteData =
  vd_userId :: oid
  vd_votedAt :: time
  vd_decisionTime :: nat

record questionStats =
  totalVotes :: nat
  optionAPercentage :: int
  optionBPercentage :: int
  engagementRate :: rat
  averageDecisionTime :: rat
  views :: nat

record question =
  q_id :: oid
  q_createdBy :: oid
  q_createdAt :: time
  q_isActive :: bool
  q_moderationStatus :: moderationStatus
  votes_optionA :: "voteData list"
  votes_optionB :: "voteData list"
  q_stats :: questionStats

text \<open>\<open>questionSchema.methods.hasUserVoted\<close>: the option the user voted for, if any.\<close>

definition hasUserVoted :: "question \<Rightarrow> oid \<Rightarrow> choice option" where
  "hasUserVoted q userId =
     (let votedA = list_ex (\<lambda>v. vd_userId v = userId) (votes_optionA q);
          votedB = list_ex (\<lambda>v. vd_userId v = userId) (votes_optionB q)
      in if votedA then Some optionA else if votedB then Some optionB else None)"

text \<open>\<open>questionSchema.methods.updateStats\<close>.\<close>

definition updateStats :: "question \<Rightarrow> question" where
  "updateStats q =
     (let total = length (votes_optionA q) + length (votes_optionB q);
          st = (q_stats q)\<lparr>totalVotes := total\<rparr>
      in if total > 0 then
           let allVotes = votes_optionA q @ votes_optionB q;
               totalDecisionTime = sum_list (map vd_decisionTime allVotes);
               st1 = st\<lparr>optionAPercentage :=
                           Math_round (of_nat (length (votes_optionA q)) / of_nat total * 100),
                         optionBPercentage :=
                           Math_round (of_nat (length (votes_optionB q)) / of_nat total * 100),
                         averageDecisionTime := of_nat totalDecisionTime / of_nat total\<rparr>;
               st2 = (if views st1 > 0
                      then st1\<lparr>engagementRate := of_nat total / of_nat (views st1) * 100\<rparr>
                      else st1)
           in q\<lparr>q_stats := st2\<rparr>
         else
           q\<lparr>q_stats := st\<lparr>optionAPercentage := 0, optionBPercentage := 0,
                              averageDecisionTime := 0, engagementRate := 0\<rparr>\<rparr>)"

text \<open>
  Errors are values.  \<open>AppError\<close> carries the message and the HTTP status the controller
  passes to \<open>next\<close>; \<open>Error\<close> is a plain exception thrown by a model method;
  \<open>ValidationError\<close> and \<open>DuplicateKeyError\<close> are what the document store raises when a
  schema validator or a unique index rejects a write; \<open>TypeError\<close> is the dereference of
  \<open>null\<close>.
\<close>

datatype error =
    AppError string nat
  | Error string
  | ValidationError
  | DuplicateKeyError
  | TypeError

text \<open>
  \<open>questionSchema.methods.addVote\<close>.  The option is one of the two enum values, so the
  source's last branch (\<open>Invalid vote option\<close>) has no input here.
\<close>

definition addVote :: "time \<Rightarrow> question \<Rightarrow> oid \<Rightarrow> choice \<Rightarrow> nat \<Rightarrow> error + question" where
  "addVote now q userId option decisionTime =
     (case hasUserVoted q userId of
        Some _ \<Rightarrow> Inl (Error ''User has already voted on this question'')
      | None \<Rightarrow>
          let voteData = \<lparr>vd_userId = userId, vd_votedAt = now, vd_decisionTime = decisionTime\<rparr>
          in Inr (updateStats
               (case option of
                  optionA \<Rightarrow> q\<lparr>votes_optionA := votes_optionA q @ [voteData]\<rparr>
                | optionB \<Rightarrow> q\<lparr>votes_optionB := votes_optionB q @ [voteData]\<rparr>)))"

text \<open>\<open>questionSchema.methods.removeVote\<close>.\<close>

definition removeVote :: "question \<Rightarrow> oid \<Rightarrow> question" where
  "removeVote q userId =
     updateStats (q\<lparr>votes_optionA := filter (\<lambda>v. vd_userId v \<noteq> userId) (votes_optionA q),
                    votes_optionB := filter (\<lambda>v. vd_userId v \<noteq> userId) (votes_optionB q)\<rparr>)"

section \<open>Users: points, level and streak (models/User.js)\<close>

record userStats =
  questionsCreated :: nat
  votesCount :: int
  points :: int
  currentStreak :: nat
  longestStreak :: nat
  lastActivity :: time
  badges :: "oid list"
  level :: nat
  experience :: nat

record user =
  u_id :: oid
  username :: string
  avatar :: string
  u_isActive :: bool
  stats :: userStats

text \<open>The object \<open>{ levelUp, newLevel }\<close> returned by \<open>addPoints\<close>.\<close>

record levelReport =
  levelUp :: bool
  newLevel :: nat

text \<open>
  \<open>userSchema.methods.addPoints\<close>.  The amount is a natural number: the only caller
  passes the constant 10.
\<close>

definition addPoints :: "user \<Rightarrow> nat \<Rightarrow> user \<times> levelReport" where
  "addPoints u pts =
     (let st = (stats u)\<lparr>points := points (stats u) + int pts,
                          experience := experience (stats u) + pts\<rparr>;
          nl = nat \<lfloor>sqrt (real (experience st) / 100)\<rfloor> + 1
      in if nl > level st
         then (u\<lparr>stats := st\<lparr>level := nl\<rparr>\<rparr>, \<lparr>levelUp = True, newLevel = nl\<rparr>)
         else (u\<lparr>stats := st\<rparr>, \<lparr>levelUp = False, newLevel = nl\<rparr>))"

text \<open>
  \<open>userSchema.methods.updateStreak\<close>, at the time \<open>now\<close> of the call.  The result is the
  updated user and the returned streak.
\<close>

definition updateStreak :: "time \<Rightarrow> user \<Rightarrow> user \<times> nat" where
  "updateStreak now u =
     (let today = setHours0 now;
          lastActivityDay = setHours0 (lastActivity (stats u));
          daysDiff = (today - lastActivityDay) div msPerDay
      in if daysDiff = 0 then (u, currentStreak (stats u))
         else
           let st = (if daysDiff = 1 then
                       let st1 = (stats u)\<lparr>currentStreak := currentStreak (stats u) + 1\<rparr>
                       in if currentStreak st1 > longestStreak st1
                          then st1\<lparr>longestStreak := currentStreak st1\<rparr> else st1
                     else (stats u)\<lparr>currentStreak := 1\<rparr>);
               st' = st\<lparr>lastActivity := now\<rparr>
           in (u\<lparr>stats := st'\<rparr>, currentStreak st'))"

section \<open>Votes, chat messages and badges (models/Vote.js, models/Badge.js)\<close>

text \<open>
  A vote document.  The request metadata the controller also stores (session, user agent,
  address, platform) takes no part in any operation below and is left out.
\<close>

record vote =
  v_userId :: oid
  v_questionId :: oid
  v_choice :: choice
  v_decisionTime :: nat
  v_confidence :: nat
  v_createdAt :: time

text \<open>Of a chat message only the author and the creation time are ever queried here.\<close>

record chatMessage =
  cm_userId :: oid
  cm_createdAt :: time

datatype requirementType =
    vote_count | question_count | streak_count | points_total
  | level_reached | social_actions | time_based | special_event

datatype timeframe = daily | weekly | monthly | all_time

record badge =
  b_id :: oid
  b_isActive :: bool
  req_type :: requirementType
  req_threshold :: nat
  req_timeframe :: timeframe
  req_consecutive :: bool
  b_points :: nat
  unlock_startDate :: "time option"
  unlock_endDate :: "time option"
  unlock_requiredBadges :: "oid list"
  unlock_excludedBadges :: "oid list"
  stat_totalEarned :: nat
  stat_firstEarned :: "time option"
  stat_lastEarned :: "time option"
  stat_earnedBy :: "(oid \<times> time) list"

section \<open>The document store\<close>

text \<open>
  Each collection is the list of its documents.  \<open>findById\<close> and \<open>findOne\<close> return the
  first match; \<open>save\<close> on a document that was found writes it back in place of that first
  match.
\<close>

record database =
  Vote_docs :: "vote list"
  Question_docs :: "question list"
  User_docs :: "user list"
  Badge_docs :: "badge list"
  ChatMessage_docs :: "chatMessage list"

fun updateFirst :: "('a \<Rightarrow> bool) \<Rightarrow> 'a \<Rightarrow> 'a list \<Rightarrow> 'a list" where
  "updateFirst P y [] = []"
| "updateFirst P y (x # xs) = (if P x then y # xs else x # updateFirst P y xs)"

definition Question_findById :: "database \<Rightarrow> oid \<Rightarrow> question option" where
  "Question_findById db qid = find (\<lambda>q. q_id q = qid) (Question_docs db)"

definition Question_save :: "database \<Rightarrow> question \<Rightarrow> database" where
  "Question_save db q =
     db\<lparr>Question_docs := updateFirst (\<lambda>x. q_id x = q_id q) q (Question_docs db)\<rparr>"

definition User_findById :: "database \<Rightarrow> oid \<Rightarrow> user option" where
  "User_findById db uid = find (\<lambda>u. u_id u = uid) (User_docs db)"

definition User_save :: "database \<Rightarrow> user \<Rightarrow> database" where
  "User_save db u = db\<lparr>User_docs := updateFirst (\<lambda>x. u_id x = u_id u) u (User_docs db)\<rparr>"

definition Badge_findById :: "database \<Rightarrow> oid \<Rightarrow> badge option" where
  "Badge_findById db bid = find (\<lambda>b. b_id b = bid) (Badge_docs db)"

definition Badge_save :: "database \<Rightarrow> badge \<Rightarrow> database" where
  "Badge_save db b = db\<lparr>Badge_docs := updateFirst (\<lambda>x. b_id x = b_id b) b (Badge_docs db)\<rparr>"

definition Vote_findOne :: "database \<Rightarrow> oid \<Rightarrow> oid \<Rightarrow> vote option" where
  "Vote_findOne db userId questionId =
     find (\<lambda>v. v_userId v = userId \<and> v_questionId v = questionId) (Vote_docs db)"

definition Vote_save :: "database \<Rightarrow> vote \<Rightarrow> database" where
  "Vote_save db v =
     db\<lparr>Vote_docs := updateFirst (\<lambda>x. v_userId x = v_userId v \<and> v_questionId x = v_questionId v)
                         v (Vote_docs db)\<rparr>"

text \<open>
  \<open>Vote.create\<close>: the schema validators run first (\<open>confidence\<close> between 1 and 5; the other
  validated fields are correct by their types), then the insert, which the unique index
  \<open>{ userId: 1, questionId: 1 }\<close> of the collection rejects when a document with the same
  pair is already stored.
\<close>

definition Vote_create :: "database \<Rightarrow> vote \<Rightarrow> error + vote \<times> database" where
  "Vote_create db v =
     (if \<not> (1 \<le> v_confidence v \<and> v_confidence v \<le> 5) then Inl ValidationError
      else if list_ex (\<lambda>x. v_userId x = v_userId v \<and> v_questionId x = v_questionId v)
                (Vote_docs db)
      then Inl DuplicateKeyError
      else Inr (v, db\<lparr>Vote_docs := Vote_docs db @ [v]\<rparr>))"

text \<open>The three \<open>countDocuments\<close> queries of the qualification check.\<close>

definition Vote_countSince :: "database \<Rightarrow> oid \<Rightarrow> time \<Rightarrow> nat" where
  "Vote_countSince db userId startDate =
     length (filter (\<lambda>v. v_userId v = userId \<and> v_createdAt v \<ge> startDate) (Vote_docs db))"

definition Question_countSince :: "database \<Rightarrow> oid \<Rightarrow> time \<Rightarrow> nat" where
  "Question_countSince db userId startDate =
     length (filter (\<lambda>q. q_createdBy q = userId \<and> q_createdAt q \<ge> startDate)
       (Question_docs db))"

definition ChatMessage_countSince :: "database \<Rightarrow> oid \<Rightarrow> time \<Rightarrow> nat" where
  "ChatMessage_countSince db userId startDate =
     length (filter (\<lambda>m. cm_userId m = userId \<and> cm_createdAt m \<ge> startDate)
       (ChatMessage_docs db))"

section \<open>Badge qualification and award (models/Badge.js)\<close>

text \<open>
  \<open>Date.getDay\<close> and \<open>Date.getDate\<close> on a UTC host: the day of the week (Sunday is 0; day 0
  of the epoch was a Thursday) and the day of the month, the latter by the usual
  era/day-of-era arithmetic on the proleptic Gregorian calendar.
\<close>

definition getDay :: "time \<Rightarrow> int" where
  "getDay t = (t div msPerDay + 4) mod 7"

definition getDate :: "time \<Rightarrow> int" where
  "getDate t =
     (let doe = (t div msPerDay + 719468) mod 146097;
          yoe = (doe - doe div 1460 + doe div 36524 - doe div 146096) div 365;
          doy = doe - (365 * yoe + yoe div 4 - yoe div 100);
          mp = (5 * doy + 2) div 153
      in doy - (153 * mp + 2) div 5 + 1)"

text \<open>The helper \<open>getTimeframeStartDate\<close>.\<close>

definition getTimeframeStartDate :: "time \<Rightarrow> timeframe \<Rightarrow> time" where
  "getTimeframeStartDate now tf =
     (case tf of
        daily \<Rightarrow> setHours0 now
      | weekly \<Rightarrow> setHours0 (now - getDay now * msPerDay)
      | monthly \<Rightarrow> setHours0 (now - (getDate now - 1) * msPerDay)
      | all_time \<Rightarrow> 0)"

text \<open>
  The \<open>switch\<close> of \<open>checkUserQualification\<close>: the user's current value for the badge's
  requirement type, or \<open>None\<close> where the source takes the \<open>default\<close> branch and returns
  \<open>false\<close>.
\<close>

definition currentValue :: "time \<Rightarrow> database \<Rightarrow> user \<Rightarrow> badge \<Rightarrow> int option" where
  "currentValue now db u b =
     (case req_type b of
        vote_count \<Rightarrow>
          Some (if req_timeframe b = all_time then votesCount (stats u)
                else int (Vote_countSince db (u_id u)
                       (getTimeframeStartDate now (req_timeframe b))))
      | question_count \<Rightarrow>
          Some (if req_timeframe b = all_time then int (questionsCreated (stats u))
                else int (Question_countSince db (u_id u)
                       (getTimeframeStartDate now (req_timeframe b))))
      | streak_count \<Rightarrow>
          Some (if req_consecutive b then int (currentStreak (stats u))
                else int (longestStreak (stats u)))
      | points_total \<Rightarrow> Some (points (stats u))
      | level_reached \<Rightarrow> Some (int (level (stats u)))
      | social_actions \<Rightarrow>
          Some (int (ChatMessage_countSince db (u_id u)
                  (if req_timeframe b \<noteq> all_time
                   then getTimeframeStartDate now (req_timeframe b) else 0)))
      | _ \<Rightarrow> None)"

definition checkUserQualification :: "time \<Rightarrow> database \<Rightarrow> oid \<Rightarrow> oid \<Rightarrow> bool" where
  "checkUserQualification now db userId badgeId =
     (case Badge_findById db badgeId of
        None \<Rightarrow> False
      | Some b \<Rightarrow>
          (if \<not> b_isActive b then False
           else
             (case User_findById db userId of
                None \<Rightarrow> False
              | Some u \<Rightarrow>
                  (if badgeId \<in> set (badges (stats u)) then False
                   else if (case unlock_startDate b of Some sd \<Rightarrow> now < sd | None \<Rightarrow> False)
                     then False
                   else if (case unlock_endDate b of Some ed \<Rightarrow> now > ed | None \<Rightarrow> False)
                     then False
                   else if unlock_requiredBadges b \<noteq> [] \<and>
                           \<not> list_all (\<lambda>r. r \<in> set (badges (stats u)))
                               (unlock_requiredBadges b)
                     then False
                   else if unlock_excludedBadges b \<noteq> [] \<and>
                           list_ex (\<lambda>e. e \<in> set (badges (stats u))) (unlock_excludedBadges b)
                     then False
                   else
                     (case currentValue now db u b of
                        None \<Rightarrow> False
                      | Some v \<Rightarrow> v \<ge> int (req_threshold b))))))"

definition awardToUser :: "time \<Rightarrow> database \<Rightarrow> oid \<Rightarrow> oid \<Rightarrow> bool \<times> database" where
  "awardToUser now db userId badgeId =
     (case (Badge_findById db badgeId, User_findById db userId) of
        (Some b, Some u) \<Rightarrow>
          if badgeId \<in> set (badges (stats u)) then (False, db)
          else
            let u' = u\<lparr>stats := (stats u)\<lparr>badges := badges (stats u) @ [badgeId],
                                          points := points (stats u) + int (b_points b)\<rparr>\<rparr>;
                b' = b\<lparr>stat_totalEarned := stat_totalEarned b + 1,
                       stat_lastEarned := Some now,
                       stat_firstEarned :=
                         (case stat_firstEarned b of None \<Rightarrow> Some now | Some t \<Rightarrow> Some t),
                       stat_earnedBy := stat_earnedBy b @ [(userId, now)]\<rparr>
            in (True, Badge_save (User_save db u') b')
      | _ \<Rightarrow> (False, db))"

section \<open>The real-time layer (socket/socketHandler.js)\<close>

text \<open>
  A room is named \<open>question_<id>\<close> or \<open>user_<id>\<close>.  A socket is its connection identifier
  together with the user document the authentication middleware attached to it.
\<close>

type_synonym socketId = nat

datatype room = question_room oid | user_room oid

record socket =
  sock_id :: socketId
  sock_user :: user

text \<open>An entry of the module-level map \<open>activeUsers\<close>, keyed by the user's identifier.\<close>

record activeUser =
  au_socketId :: socketId
  au_userId :: oid
  au_username :: string
  au_avatar :: string
  au_connectedAt :: time
  au_currentRoom :: "room option"

text \<open>An element of the list \<open>getRoomUsers\<close> returns.\<close>

record roomUser =
  ru_userId :: oid
  ru_username :: string
  ru_avatar :: string
  ru_socketId :: socketId

text \<open>The events the modelled handlers and controllers emit, with their payloads.\<close>

datatype event =
    user_online oid string string
  | user_offline oid string time
  | user_left_room oid string
  | user_joined_room oid string string
  | room_joined oid nat "roomUser list"
  | error_event string
  | user_typing oid string bool
  | vote_update oid choice nat int int "(string \<times> string) option" "string option"
  | badges_earned "badge list"

text \<open>
  The server: the connected sockets in connection order, the members of every room in
  joining order, the presence map, and the log of what was sent, each entry being an event
  with the connections it was delivered to.
\<close>

record server =
  sockets :: "socket list"
  rooms :: "room \<Rightarrow> socketId list"
  activeUsers :: "oid \<rightharpoonup> activeUser"
  sent :: "(socketId list \<times> event) list"

text \<open>
  The library's primitives.  \<open>socket.to(room)\<close> and \<open>socket.broadcast\<close> leave the sending
  socket out; \<open>io.to(room)\<close> and \<open>socket.emit\<close> do not.
\<close>

definition socket_join :: "server \<Rightarrow> socket \<Rightarrow> room \<Rightarrow> server" where
  "socket_join io s r =
     (if sock_id s \<in> set (rooms io r) then io
      else io\<lparr>rooms := (rooms io)(r := rooms io r @ [sock_id s])\<rparr>)"

definition socket_leave :: "server \<Rightarrow> socket \<Rightarrow> room \<Rightarrow> server" where
  "socket_leave io s r = io\<lparr>rooms := (rooms io)(r := removeAll (sock_id s) (rooms io r))\<rparr>"

definition socket_to_emit :: "server \<Rightarrow> socket \<Rightarrow> room \<Rightarrow> event \<Rightarrow> server" where
  "socket_to_emit io s r e =
     io\<lparr>sent := sent io @ [(filter (\<lambda>i. i \<noteq> sock_id s) (rooms io r), e)]\<rparr>"

definition socket_broadcast_emit :: "server \<Rightarrow> socket \<Rightarrow> event \<Rightarrow> server" where
  "socket_broadcast_emit io s e =
     io\<lparr>sent := sent io @ [(filter (\<lambda>i. i \<noteq> sock_id s) (map sock_id (sockets io)), e)]\<rparr>"

definition socket_emit :: "server \<Rightarrow> socket \<Rightarrow> event \<Rightarrow> server" where
  "socket_emit io s e = io\<lparr>sent := sent io @ [([sock_id s], e)]\<rparr>"

definition io_to_emit :: "server \<Rightarrow> room \<Rightarrow> event \<Rightarrow> server" where
  "io_to_emit io r e = io\<lparr>sent := sent io @ [(rooms io r, e)]\<rparr>"

text \<open>The helper \<open>getRoomUsers\<close>: the sockets of a room, as user summaries.\<close>

definition getRoomUsers :: "server \<Rightarrow> room \<Rightarrow> roomUser list" where
  "getRoomUsers io r =
     map (\<lambda>s. \<lparr>ru_userId = u_id (sock_user s), ru_username = username (sock_user s),
               ru_avatar = avatar (sock_user s), ru_socketId = sock_id s\<rparr>)
       (filter (\<lambda>s. sock_id s \<in> set (rooms io r)) (sockets io))"

text \<open>
  \<open>handleConnection\<close>: the body run when an authenticated socket connects.  The library
  has registered the socket before the callback runs.
\<close>

definition handleConnection :: "time \<Rightarrow> server \<Rightarrow> socket \<Rightarrow> server" where
  "handleConnection now io s =
     (let u = sock_user s;
          io0 = io\<lparr>sockets := sockets io @ [s]\<rparr>;
          io1 = io0\<lparr>activeUsers := (activeUsers io0)(u_id u \<mapsto>
                     \<lparr>au_socketId = sock_id s, au_userId = u_id u, au_username = username u,
                      au_avatar = avatar u, au_connectedAt = now, au_currentRoom = None\<rparr>)\<rparr>;
          io2 = socket_join io1 s (user_room (u_id u))
      in socket_broadcast_emit io2 s (user_online (u_id u) (username u) (avatar u)))"

text \<open>The \<open>join_question\<close> handler.\<close>

definition on_join_question :: "database \<Rightarrow> server \<Rightarrow> socket \<Rightarrow> oid \<Rightarrow> server" where
  "on_join_question db io s questionId =
     (let u = sock_user s in
      case Question_findById db questionId of
        None \<Rightarrow> socket_emit io s (error_event ''Question not found'')
      | Some _ \<Rightarrow>
          let io1 = (case activeUsers io (u_id u) of
                       None \<Rightarrow> io
                     | Some d \<Rightarrow>
                         (case au_currentRoom d of
                            None \<Rightarrow> io
                          | Some previousRoom \<Rightarrow>
                              socket_to_emit (socket_leave io s previousRoom) s previousRoom
                                (user_left_room (u_id u) (username u))));
              roomName = question_room questionId;
              io2 = socket_join io1 s roomName;
              io3 = (case activeUsers io2 (u_id u) of
                       None \<Rightarrow> io2
                     | Some d \<Rightarrow>
                         io2\<lparr>activeUsers := (activeUsers io2)(u_id u \<mapsto>
                                d\<lparr>au_currentRoom := Some roomName\<rparr>)\<rparr>);
              io4 = socket_to_emit io3 s roomName
                      (user_joined_room (u_id u) (username u) (avatar u));
              roomUsers = getRoomUsers io4 roomName
          in socket_emit io4 s (room_joined questionId (length roomUsers) (take 10 roomUsers)))"

text \<open>The \<open>leave_question\<close> handler.\<close>

definition on_leave_question :: "server \<Rightarrow> socket \<Rightarrow> oid \<Rightarrow> server" where
  "on_leave_question io s questionId =
     (let u = sock_user s;
          roomName = question_room questionId;
          io1 = socket_to_emit (socket_leave io s roomName) s roomName
                  (user_left_room (u_id u) (username u))
      in case activeUsers io1 (u_id u) of
           None \<Rightarrow> io1
         | Some d \<Rightarrow>
             io1\<lparr>activeUsers := (activeUsers io1)(u_id u \<mapsto> d\<lparr>au_currentRoom := None\<rparr>)\<rparr>)"

text \<open>The \<open>typing_start\<close> and \<open>typing_stop\<close> handlers.\<close>

definition on_typing_start :: "server \<Rightarrow> socket \<Rightarrow> oid \<Rightarrow> server" where
  "on_typing_start io s questionId =
     socket_to_emit io s (question_room questionId)
       (user_typing (u_id (sock_user s)) (username (sock_user s)) True)"

definition on_typing_stop :: "server \<Rightarrow> socket \<Rightarrow> oid \<Rightarrow> server" where
  "on_typing_stop io s questionId =
     socket_to_emit io s (question_room questionId)
       (user_typing (u_id (sock_user s)) (username (sock_user s)) False)"

text \<open>
  The \<open>disconnect\<close> handler.  By the time the library fires the event it has taken the
  socket out of every room and out of the set of connected sockets; the handler's own
  statements follow in the order of the source.
\<close>

definition on_disconnect :: "time \<Rightarrow> server \<Rightarrow> socket \<Rightarrow> server" where
  "on_disconnect now io s =
     (let u = sock_user s;
          io0 = io\<lparr>sockets := filter (\<lambda>x. sock_id x \<noteq> sock_id s) (sockets io),
                   rooms := (\<lambda>r. removeAll (sock_id s) (rooms io r))\<rparr>;
          io1 = io0\<lparr>activeUsers := (activeUsers io0)(u_id u := None)\<rparr>;
          io2 = socket_broadcast_emit io1 s (user_offline (u_id u) (username u) now);
          userData = activeUsers io2 (u_id u)
      in case userData of
           None \<Rightarrow> io2
         | Some d \<Rightarrow>
             (case au_currentRoom d of
                None \<Rightarrow> io2
              | Some r \<Rightarrow> socket_to_emit io2 s r (user_left_room (u_id u) (username u))))"

section \<open>The vote controller (controllers/voteController.js)\<close>

text \<open>
  A request as the handlers see it after authentication and body validation: the
  authenticated user, the question of the route, the choice, and the two optional numbers.
\<close>

record voteRequest =
  req_userId :: oid
  req_questionId :: oid
  req_choice :: choice
  req_decisionTime :: "nat option"
  req_confidence :: "nat option"

text \<open>JavaScript's \<open>x || d\<close> on an optional number: \<open>undefined\<close> and \<open>0\<close> both give \<open>d\<close>.\<close>

definition orDefault :: "nat option \<Rightarrow> nat \<Rightarrow> nat" where
  "orDefault x d = (case x of None \<Rightarrow> d | Some n \<Rightarrow> if n = 0 then d else n)"

text \<open>
  The field \<open>pointsEarned\<close> of the response: the level report on a level-up, otherwise
  \<open>{ points: 10 }\<close>.
\<close>

datatype pointsEarned = LevelReport levelReport | Points nat

record submitVoteResponse =
  res_vote :: vote
  res_pointsEarned :: pointsEarned
  res_streak :: nat
  res_earnedBadges :: "badge list"

text \<open>
  The badge loop of \<open>submitVote\<close>: every active badge in turn is checked and, when the
  user qualifies, awarded; the badges actually awarded are collected in order.
\<close>

fun badgeLoop :: "time \<Rightarrow> oid \<Rightarrow> badge list \<Rightarrow> database \<Rightarrow> badge list \<Rightarrow> database \<times> badge list" where
  "badgeLoop now userId [] db earnedBadges = (db, earnedBadges)"
| "badgeLoop now userId (b # bs) db earnedBadges =
     (if checkUserQualification now db userId (b_id b) then
        (case awardToUser now db userId (b_id b) of
           (awarded, db') \<Rightarrow>
             badgeLoop now userId bs db' (if awarded then earnedBadges @ [b] else earnedBadges))
      else badgeLoop now userId bs db earnedBadges)"

text \<open>
  The step \<open>Check for badge achievements\<close> of \<open>submitVote\<close>: the loop over
  \<open>Badge.find({ isActive: true })\<close>, starting with no earned badge.
\<close>

definition checkBadgeAchievements :: "time \<Rightarrow> oid \<Rightarrow> database \<Rightarrow> database \<times> badge list" where
  "checkBadgeAchievements now userId db =
     badgeLoop now userId (filter b_isActive (Badge_docs db)) db []"

text \<open>
  \<open>submitVote\<close>.  The result is the error handed to \<open>next\<close> or the body of the 201
  response, with the store and the server as the call leaves them: what was written before
  an error stays written.
\<close>

definition submitVote ::
  "time \<Rightarrow> voteRequest \<Rightarrow> database \<times> server \<Rightarrow> (error + submitVoteResponse) \<times> database \<times> server" where
  "submitVote now req st =
     (let db = fst st; io = snd st;
          questionId = req_questionId req; userId = req_userId req; choice = req_choice req
      in
      (case Question_findById db questionId of
         None \<Rightarrow> (Inl (AppError ''Question not found'' 404), db, io)
       | Some q \<Rightarrow>
      (if \<not> q_isActive q \<or> q_moderationStatus q \<noteq> approved
       then (Inl (AppError ''Question is not available for voting'' 400), db, io)
       else
      (case Vote_findOne db userId questionId of
         Some existingVote \<Rightarrow>
           (Inl (AppError ''You have already voted on this question'' 400), db, io)
       | None \<Rightarrow>
      (case Vote_create db
              \<lparr>v_userId = userId, v_questionId = questionId, v_choice = choice,
               v_decisionTime = orDefault (req_decisionTime req) 0,
               v_confidence = orDefault (req_confidence req) 3, v_createdAt = now\<rparr> of
         Inl e \<Rightarrow> (Inl e, db, io)
       | Inr (vote, db1) \<Rightarrow>
      (case addVote now q userId choice
              (case req_decisionTime req of None \<Rightarrow> 0 | Some d \<Rightarrow> d) of
         Inl e \<Rightarrow> (Inl e, db1, io)
       | Inr q' \<Rightarrow>
      (let db2 = Question_save db1 q' in
      (case User_findById db2 userId of
         None \<Rightarrow> (Inl TypeError, db2, io)
       | Some user0 \<Rightarrow>
      (let user1 = user0\<lparr>stats := (stats user0)\<lparr>votesCount := votesCount (stats user0) + 1\<rparr>\<rparr>;
           (user2, report) = addPoints user1 10;
           (user3, newStreak) = updateStreak now user2;
           db3 = User_save db2 user3;
           (db4, earnedBadges) = checkBadgeAchievements now userId db3;
           io1 = io_to_emit io (question_room questionId)
                   (vote_update questionId choice (totalVotes (q_stats q'))
                      (optionAPercentage (q_stats q')) (optionBPercentage (q_stats q'))
                      (Some (username user3, avatar user3)) None);
           io2 = (if earnedBadges \<noteq> []
                  then io_to_emit io1 (user_room userId) (badges_earned earnedBadges) else io1)
       in (Inr \<lparr>res_vote = vote,
                 res_pointsEarned = (if levelUp report then LevelReport report else Points 10),
                 res_streak = newStreak, res_earnedBadges = earnedBadges\<rparr>, db4, io2))))))))))"

text \<open>The constant \<open>CHANGE_LIMIT\<close>: five minutes in milliseconds.\<close>

definition CHANGE_LIMIT :: int where
  "CHANGE_LIMIT = 5 * 60 * 1000"

text \<open>\<open>changeVote\<close>.  The body of the 200 response is the updated vote document.\<close>

definition changeVote ::
  "time \<Rightarrow> voteRequest \<Rightarrow> database \<times> server \<Rightarrow> (error + vote) \<times> database \<times> server" where
  "changeVote now req st =
     (let db = fst st; io = snd st;
          questionId = req_questionId req; userId = req_userId req; choice = req_choice req
      in
      (case Vote_findOne db userId questionId of
         None \<Rightarrow> (Inl (AppError ''No vote found to change'' 404), db, io)
       | Some existingVote \<Rightarrow>
      (let voteAge = now - v_createdAt existingVote in
      (if voteAge > CHANGE_LIMIT
       then (Inl (AppError ''Vote can only be changed within 5 minutes'' 400), db, io)
       else
      (case Question_findById db questionId of
         None \<Rightarrow> (Inl (AppError ''Question not found'' 404), db, io)
       | Some q \<Rightarrow>
      (case addVote now (removeVote q userId) userId choice 0 of
         Inl e \<Rightarrow> (Inl e, db, io)
       | Inr q' \<Rightarrow>
      (let db1 = Question_save db q';
           vote' = existingVote\<lparr>v_choice := choice,
                     v_decisionTime :=
                       orDefault (req_decisionTime req) (v_decisionTime existingVote)\<rparr>;
           db2 = Vote_save db1 vote';
           io1 = io_to_emit io (question_room questionId)
                   (vote_update questionId choice (totalVotes (q_stats q'))
                      (optionAPercentage (q_stats q')) (optionBPercentage (q_stats q'))
                      None (Some ''change''))
       in (Inr vote', db2, io1))))))))"

section \<open>Executable counterparts and example documents\<close>

text \<open>
  The integer square root, by which \<open>Math.floor(Math.sqrt(x / 100))\<close> is evaluated on
  concrete numbers (lemma \<open>floor_sqrt_floorSqrt\<close> below).
\<close>

fun floorSqrt :: "nat \<Rightarrow> nat" where
  "floorSqrt 0 = 0"
| "floorSqrt (Suc n) = (let r = floorSqrt n in if (r + 1) * (r + 1) \<le> Suc n then r + 1 else r)"

text \<open>
  Documents with the schema defaults: a question with the given identifier and embedded
  votes, approved and active; a user with the given identifier, name and last activity.
\<close>

definition ex_question :: "oid \<Rightarrow> voteData list \<Rightarrow> voteData list \<Rightarrow> question" where
  "ex_question qid as bs =
     \<lparr>q_id = qid, q_createdBy = 0, q_createdAt = 0, q_isActive = True,
      q_moderationStatus = approved, votes_optionA = as, votes_optionB = bs,
      q_stats = \<lparr>totalVotes = 0, optionAPercentage = 0, optionBPercentage = 0,
                 engagementRate = 0, averageDecisionTime = 0, views = 0\<rparr>\<rparr>"


definition ex_user :: "oid \<Rightarrow> string \<Rightarrow> time \<Rightarrow> user" where
  "ex_user uid name t =
     \<lparr>u_id = uid, username = name, avatar = ''avatar.png'', u_isActive = True,
      stats = \<lparr>questionsCreated = 0, votesCount = 0, points = 0, currentStreak = 0,
               longestStreak = 0, lastActivity = t, badges = [], level = 1, experience = 0\<rparr>\<rparr>"




text \<open>
  What an award leaves alone in the badge collection: the identifier, the reward and the
  requirement type of every badge, in order.
\<close>

definition badge_sig :: "database \<Rightarrow> (oid \<times> nat \<times> requirementType) list" where
  "badge_sig db = map (\<lambda>b. (b_id b, b_points b, req_type b)) (Badge_docs db)"

text \<open>
  A badge with the schema defaults (active, all-time, no unlock conditions, never earned)
  and the given identifier, requirement type, threshold and reward; and a store holding
  one user with one counted vote and three badges: a points badge, a vote-count badge and a
  badge of the type \<open>special_event\<close>.
\<close>

definition ex_badge :: "oid \<Rightarrow> requirementType \<Rightarrow> nat \<Rightarrow> nat \<Rightarrow> badge" where
  "ex_badge bid rt threshold pts =
     \<lparr>b_id = bid, b_isActive = True, req_type = rt, req_threshold = threshold,
      req_timeframe = all_time, req_consecutive = False, b_points = pts,
      unlock_startDate = None, unlock_endDate = None, unlock_requiredBadges = [],
      unlock_excludedBadges = [], stat_totalEarned = 0, stat_firstEarned = None,
      stat_lastEarned = None, stat_earnedBy = []\<rparr>"

definition ex_voter :: user where
  "ex_voter = (ex_user 1 ''ann'' 0)\<lparr>stats := (stats (ex_user 1 ''ann'' 0))\<lparr>votesCount := 1\<rparr>\<rparr>"

definition ex_badge_db :: database where
  "ex_badge_db =
     \<lparr>Vote_docs = [], Question_docs = [], User_docs = [ex_voter],
      Badge_docs = [ex_badge 3 points_total 5 7, ex_badge 4 special_event 1 50,
                    ex_badge 2 vote_count 1 5],
      ChatMessage_docs = []\<rparr>"

text \<open>
  A store with one open question (5) and one user (10), no votes yet; a server without
  connections; and the request of user 10 to vote for option A of question 5.
\<close>

definition ex_db :: database where
  "ex_db = \<lparr>Vote_docs = [], Question_docs = [ex_question 5 [] []],
            User_docs = [ex_user 10 ''ann'' 0], Badge_docs = [], ChatMessage_docs = []\<rparr>"

definition ex_io :: server where
  "ex_io = \<lparr>sockets = [], rooms = (\<lambda>r. []), activeUsers = Map.empty, sent = []\<rparr>"

definition ex_req :: voteRequest where
  "ex_req = \<lparr>req_userId = 10, req_questionId = 5, req_choice = optionA,
             req_decisionTime = None, req_confidence = None\<rparr>"


text \<open>
  Two connections, 1 of user 10 and 2 of user 20, and the server after both have connected
  and joined the room of question 5.
\<close>

definition ex_sockX :: socket where
  "ex_sockX = \<lparr>sock_id = 1, sock_user = ex_user 10 ''ann'' 0\<rparr>"

definition ex_sockY :: socket where
  "ex_sockY = \<lparr>sock_id = 2, sock_user = ex_user 20 ''bob'' 0\<rparr>"

definition ex_room_io :: server where
  "ex_room_io =
     on_join_question ex_db
       (on_join_question ex_db
          (handleConnection 0 (handleConnection 0 ex_io ex_sockX) ex_sockY) ex_sockX 5)
       ex_sockY 5"

section \<open>The tally after a vote is added or removed\<close>















section \<open>Points and level\<close>

lemma floorSqrt_bounds:
  "floorSqrt n * floorSqrt n \<le> n \<and> n < (floorSqrt n + 1) * (floorSqrt n + 1)"
proof (induction n)
  case 0
  show ?case by simp
next
  case (Suc n)
  show ?case
  proof (cases "(floorSqrt n + 1) * (floorSqrt n + 1) \<le> Suc n")
    case True
    with Suc have "Suc n = (floorSqrt n + 1) * (floorSqrt n + 1)" by simp
    with True show ?thesis by (simp add: Let_def)
  next
    case False
    with Suc show ?thesis by (simp add: Let_def)
  qed
qed

lemma floor_sqrt_eq:
  assumes "k * k * 100 \<le> e" "e < (k + 1) * (k + 1) * 100"
  shows "nat \<lfloor>sqrt (real e / 100)\<rfloor> = k"
proof -
  have "real (k * k * 100) \<le> real e" using assms(1) by (simp only: of_nat_le_iff)
  then have 1: "(real k)\<^sup>2 \<le> real e / 100" by (simp add: power2_eq_square)
  have "real e < real ((k + 1) * (k + 1) * 100)" using assms(2) by (simp only: of_nat_less_iff)
  then have 2: "real e / 100 < (real k + 1)\<^sup>2"
    by (simp add: power2_eq_square algebra_simps)
  have l: "real k \<le> sqrt (real e / 100)" using 1 by (rule real_le_rsqrt)
  have u: "sqrt (real e / 100) < real k + 1" using 2 by (intro real_less_lsqrt) auto
  have "\<lfloor>sqrt (real e / 100)\<rfloor> = int k"
    using l u by (intro floor_unique) auto
  then show ?thesis by simp
qed

text \<open>The level formula of the source, on natural numbers, is the integer square root.\<close>

lemma floor_sqrt_floorSqrt: "nat \<lfloor>sqrt (real e / 100)\<rfloor> = floorSqrt (e div 100)"
proof (rule floor_sqrt_eq)
  let ?k = "floorSqrt (e div 100)"
  have b: "?k * ?k \<le> e div 100" "e div 100 < (?k + 1) * (?k + 1)"
    using floorSqrt_bounds[of "e div 100"] by auto
  show "?k * ?k * 100 \<le> e" using b(1) by (simp add: less_eq_div_iff_mult_less_eq)
  have "e div 100 + 1 \<le> (?k + 1) * (?k + 1)" using b(2) by simp
  then have "(e div 100 + 1) * 100 \<le> (?k + 1) * (?k + 1) * 100" by (simp only: mult_le_mono1)
  moreover have "e < (e div 100 + 1) * 100" by presburger
  ultimately show "e < (?k + 1) * (?k + 1) * 100" by linarith
qed

lemma addPoints_code [code]:
  "addPoints u pts =
     (let st = (stats u)\<lparr>points := points (stats u) + int pts,
                          experience := experience (stats u) + pts\<rparr>;
          nl = floorSqrt (experience st div 100) + 1
      in if nl > level st
         then (u\<lparr>stats := st\<lparr>level := nl\<rparr>\<rparr>, \<lparr>levelUp = True, newLevel = nl\<rparr>)
         else (u\<lparr>stats := st\<rparr>, \<lparr>levelUp = False, newLevel = nl\<rparr>))"
  unfolding addPoints_def floor_sqrt_floorSqrt ..



lemma addPoints_frame:
  "u_id (fst (addPoints u p)) = u_id u"
  "username (fst (addPoints u p)) = username u"
  "avatar (fst (addPoints u p)) = avatar u"
  "badges (stats (fst (addPoints u p))) = badges (stats u)"
  "votesCount (stats (fst (addPoints u p))) = votesCount (stats u)"
  "questionsCreated (stats (fst (addPoints u p))) = questionsCreated (stats u)"
  "currentStreak (stats (fst (addPoints u p))) = currentStreak (stats u)"
  "longestStreak (stats (fst (addPoints u p))) = longestStreak (stats u)"
  "lastActivity (stats (fst (addPoints u p))) = lastActivity (stats u)"
  by (simp_all add: addPoints_def Let_def)



section \<open>Streak\<close>





section \<open>Documents found and saved\<close>

lemma find_updateFirst_same:
  "find P xs = Some x \<Longrightarrow> P y \<Longrightarrow> find P (updateFirst P y xs) = Some y"
  by (induction xs) (auto split: if_splits)

lemma updateFirst_not_found: "find P xs = None \<Longrightarrow> updateFirst P y xs = xs"
  by (induction xs) (auto split: if_splits)

lemma map_updateFirst:
  "find P xs = Some x \<Longrightarrow> f y = f x \<Longrightarrow> map f (updateFirst P y xs) = map f xs"
  by (induction xs) (auto split: if_splits)

lemma find_SomeD: "find P xs = Some x \<Longrightarrow> P x \<and> x \<in> set xs"
  by (induction xs) (auto split: if_splits)

lemma find_distinct_key:
  "distinct (map f xs) \<Longrightarrow> x \<in> set xs \<Longrightarrow> find (\<lambda>y. f y = f x) xs = Some x"
  by (induction xs) (auto simp: image_iff)

section \<open>Badges\<close>

lemma awardToUser_False: "awardToUser now db uid bid = (False, db') \<Longrightarrow> db' = db"
  by (auto simp: awardToUser_def Let_def split: option.splits if_splits)

lemma awardToUser_True:
  assumes "awardToUser now db uid bid = (True, db')"
  shows "\<exists>b u. Badge_findById db bid = Some b \<and> User_findById db uid = Some u \<and>
           bid \<notin> set (badges (stats u)) \<and>
           User_findById db' uid =
             Some (u\<lparr>stats := (stats u)\<lparr>badges := badges (stats u) @ [bid],
                                         points := points (stats u) + int (b_points b)\<rparr>\<rparr>) \<and>
           badge_sig db' = badge_sig db"
proof -
  from assms obtain b u where b: "Badge_findById db bid = Some b"
    and u: "User_findById db uid = Some u" and n: "bid \<notin> set (badges (stats u))"
    by (auto simp: awardToUser_def Let_def split: option.splits if_splits)
  let ?u' = "u\<lparr>stats := (stats u)\<lparr>badges := badges (stats u) @ [bid],
                                         points := points (stats u) + int (b_points b)\<rparr>\<rparr>"
  let ?b' = "b\<lparr>stat_totalEarned := stat_totalEarned b + 1, stat_lastEarned := Some now,
                stat_firstEarned := (case stat_firstEarned b of None \<Rightarrow> Some now | Some t \<Rightarrow> Some t),
                stat_earnedBy := stat_earnedBy b @ [(uid, now)]\<rparr>"
  have db': "db' = Badge_save (User_save db ?u') ?b'"
    using assms b u n by (simp add: awardToUser_def Let_def)
  have uid: "u_id u = uid" using u find_SomeD[of "\<lambda>x. u_id x = uid"] by (auto simp: User_findById_def)
  have bid: "b_id b = bid" using b find_SomeD[of "\<lambda>x. b_id x = bid"] by (auto simp: Badge_findById_def)
  have 1: "User_findById db' uid = Some ?u'"
    using u uid unfolding db' User_findById_def Badge_save_def User_save_def
    by (simp add: find_updateFirst_same)
  have 2: "badge_sig db' = badge_sig db"
    using b bid unfolding db' badge_sig_def Badge_save_def User_save_def Badge_findById_def
    by (simp add: map_updateFirst[where x = b])
  from b u n 1 2 show ?thesis by blast
qed

lemma map_of_find:
  "find (\<lambda>x. f x = k) xs = Some x \<Longrightarrow> map_of (map (\<lambda>x. (f x, g x)) xs) k = Some (g x)"
  by (induction xs) (auto split: if_splits)

lemma find_map_of:
  "map_of (map (\<lambda>x. (f x, g x)) xs) k = Some v \<Longrightarrow> \<exists>x. find (\<lambda>x. f x = k) xs = Some x \<and> g x = v"
  by (induction xs) (auto split: if_splits)

lemma Badge_findById_sig:
  "Badge_findById db bid = Some b \<Longrightarrow>
     map_of (badge_sig db) bid = Some (b_points b, req_type b)"
  unfolding Badge_findById_def badge_sig_def by (rule map_of_find)

lemma sig_Badge_findById:
  "map_of (badge_sig db) bid = Some (p, t) \<Longrightarrow>
     \<exists>b. Badge_findById db bid = Some b \<and> b_points b = p \<and> req_type b = t"
  unfolding Badge_findById_def badge_sig_def by (drule find_map_of) auto

lemma checkUserQualification_recognized:
  assumes "checkUserQualification now db uid bid"
  shows "\<exists>b. Badge_findById db bid = Some b \<and> req_type b \<noteq> time_based \<and> req_type b \<noteq> special_event"
  using assms
  by (auto simp: checkUserQualification_def currentValue_def
      split: option.splits if_splits requirementType.splits)

text \<open>The loop, from any point of the pass.\<close>

lemma badgeLoop_result:
  assumes "User_findById db uid = Some u"
    and "\<forall>b \<in> set bs. \<exists>t. map_of (badge_sig db) (b_id b) = Some (b_points b, t)"
    and "badgeLoop now uid bs db earned = (db', earned')"
  shows "\<exists>new. earned' = earned @ new \<and>
           User_findById db' uid =
             Some (u\<lparr>stats := (stats u)\<lparr>badges := badges (stats u) @ map b_id new,
                      points := points (stats u) + int (sum_list (map b_points new))\<rparr>\<rparr>) \<and>
           badge_sig db' = badge_sig db \<and>
           distinct (map b_id new) \<and> set (map b_id new) \<inter> set (badges (stats u)) = {} \<and>
           (\<forall>b \<in> set new. \<exists>p t. map_of (badge_sig db) (b_id b) = Some (p, t) \<and>
                t \<noteq> time_based \<and> t \<noteq> special_event)"
  using assms
proof (induction bs arbitrary: db earned u)
  case Nil
  then show ?case by (intro exI[of _ "[]"]) simp
next
  case (Cons b bs)
  show ?case
  proof (cases "checkUserQualification now db uid (b_id b) \<and> fst (awardToUser now db uid (b_id b))")
    case False
    then have "badgeLoop now uid (b # bs) db earned = badgeLoop now uid bs db earned"
      by (auto split: prod.splits dest: awardToUser_False)
    with Cons.prems(3) have l: "badgeLoop now uid bs db earned = (db', earned')" by simp
    from Cons.IH[OF Cons.prems(1) _ l] Cons.prems(2) show ?thesis by simp
  next
    case True
    obtain db1 where a: "awardToUser now db uid (b_id b) = (True, db1)"
      using True by (cases "awardToUser now db uid (b_id b)") auto
    from awardToUser_True[OF a] Cons.prems(1) obtain d where
      d: "Badge_findById db (b_id b) = Some d" and
      n: "b_id b \<notin> set (badges (stats u))" and
      u1: "User_findById db1 uid =
             Some (u\<lparr>stats := (stats u)\<lparr>badges := badges (stats u) @ [b_id b],
                                         points := points (stats u) + int (b_points d)\<rparr>\<rparr>)" and
      sg: "badge_sig db1 = badge_sig db"
      by auto
    from Cons.prems(2) Badge_findById_sig[OF d] have pd: "b_points d = b_points b" by auto
    from True checkUserQualification_recognized[of now db uid "b_id b"] d
    have rt: "req_type d \<noteq> time_based \<and> req_type d \<noteq> special_event" by auto
    let ?u1 = "u\<lparr>stats := (stats u)\<lparr>badges := badges (stats u) @ [b_id b],
                                         points := points (stats u) + int (b_points d)\<rparr>\<rparr>"
    have l: "badgeLoop now uid bs db1 (earned @ [b]) = (db', earned')"
      using Cons.prems(3) True a by simp
    have p2: "\<forall>b \<in> set bs. \<exists>t. map_of (badge_sig db1) (b_id b) = Some (b_points b, t)"
      using Cons.prems(2) sg by simp
    from Cons.IH[OF u1 p2 l] obtain new where
      e: "earned' = (earned @ [b]) @ new" and
      u': "User_findById db' uid =
             Some (?u1\<lparr>stats := (stats ?u1)\<lparr>badges := badges (stats ?u1) @ map b_id new,
                      points := points (stats ?u1) + int (sum_list (map b_points new))\<rparr>\<rparr>)" and
      sg': "badge_sig db' = badge_sig db1" and
      dn: "distinct (map b_id new)" and
      dj: "set (map b_id new) \<inter> set (badges (stats ?u1)) = {}" and
      rn: "\<forall>b \<in> set new. \<exists>p t. map_of (badge_sig db1) (b_id b) = Some (p, t) \<and>
                t \<noteq> time_based \<and> t \<noteq> special_event"
      by blast
    show ?thesis
    proof (intro exI[of _ "b # new"] conjI)
      show "earned' = earned @ b # new" using e by simp
      show "User_findById db' uid =
             Some (u\<lparr>stats := (stats u)\<lparr>badges := badges (stats u) @ map b_id (b # new),
                      points := points (stats u) + int (sum_list (map b_points (b # new)))\<rparr>\<rparr>)"
        using u' pd by simp
      show "badge_sig db' = badge_sig db" using sg sg' by simp
      show "distinct (map b_id (b # new))" using dn dj by auto
      show "set (map b_id (b # new)) \<inter> set (badges (stats u)) = {}" using dj n by auto
      show "\<forall>b \<in> set (b # new). \<exists>p t. map_of (badge_sig db) (b_id b) = Some (p, t) \<and>
                t \<noteq> time_based \<and> t \<noteq> special_event"
        using rn sg Badge_findById_sig[OF d] rt by auto
    qed
  qed
qed


text \<open>An award is all or nothing, and an immediate second award is refused.\<close>

lemma awardToUser_again:
  assumes "awardToUser now db uid bid = (True, db')"
  shows "awardToUser now' db' uid bid = (False, db')"
proof -
  from awardToUser_True[OF assms] obtain u' where
    "User_findById db' uid = Some u'" "bid \<in> set (badges (stats u'))"
    by auto
  then show ?thesis
    by (auto simp: awardToUser_def split: option.splits)
qed

lemma badgeLoop_recognized:
  assumes "badgeLoop now uid bs db earned = (db', earned')"
  shows "\<exists>new. earned' = earned @ new \<and> badge_sig db' = badge_sig db \<and>
           (\<forall>b \<in> set new. \<exists>p t. map_of (badge_sig db) (b_id b) = Some (p, t) \<and>
                t \<noteq> time_based \<and> t \<noteq> special_event)"
  using assms
proof (induction bs arbitrary: db earned)
  case Nil
  then show ?case by (intro exI[of _ "[]"]) simp
next
  case (Cons b bs)
  show ?case
  proof (cases "checkUserQualification now db uid (b_id b) \<and> fst (awardToUser now db uid (b_id b))")
    case False
    then have "badgeLoop now uid (b # bs) db earned = badgeLoop now uid bs db earned"
      by (auto split: prod.splits dest: awardToUser_False)
    with Cons.prems have l: "badgeLoop now uid bs db earned = (db', earned')" by simp
    from Cons.IH[OF l] show ?thesis by simp
  next
    case True
    obtain db1 where a: "awardToUser now db uid (b_id b) = (True, db1)"
      using True by (cases "awardToUser now db uid (b_id b)") auto
    from awardToUser_True[OF a] have sg: "badge_sig db1 = badge_sig db" by auto
    from True checkUserQualification_recognized[of now db uid "b_id b"] obtain d where
      d: "Badge_findById db (b_id b) = Some d" and
      rt: "req_type d \<noteq> time_based \<and> req_type d \<noteq> special_event" by auto
    have l: "badgeLoop now uid bs db1 (earned @ [b]) = (db', earned')"
      using Cons.prems True a by simp
    from Cons.IH[OF l] obtain new where
      e: "earned' = (earned @ [b]) @ new" and
      sg': "badge_sig db' = badge_sig db1" and
      rn: "\<forall>b \<in> set new. \<exists>p t. map_of (badge_sig db1) (b_id b) = Some (p, t) \<and>
                t \<noteq> time_based \<and> t \<noteq> special_event"
      by blast
    show ?thesis
    proof (intro exI[of _ "b # new"] conjI)
      show "earned' = earned @ b # new" using e by simp
      show "badge_sig db' = badge_sig db" using sg sg' by simp
      show "\<forall>b \<in> set (b # new). \<exists>p t. map_of (badge_sig db) (b_id b) = Some (p, t) \<and>
                t \<noteq> time_based \<and> t \<noteq> special_event"
        using rn sg Badge_findById_sig[OF d] rt by auto
    qed
  qed
qed

lemma badge_sig_of_doc:
  assumes "distinct (map b_id (Badge_docs db))" "b \<in> set (Badge_docs db)"
  shows "map_of (badge_sig db) (b_id b) = Some (b_points b, req_type b)"
proof -
  have "distinct (map fst (badge_sig db))"
    using assms(1) by (simp add: badge_sig_def comp_def)
  moreover have "(b_id b, b_points b, req_type b) \<in> set (badge_sig db)"
    using assms(2) by (auto simp: badge_sig_def)
  ultimately show ?thesis by (rule map_of_is_SomeI)
qed

lemma checkBadgeAchievements_result:
  assumes u: "User_findById db uid = Some u"
    and d: "distinct (map b_id (Badge_docs db))"
    and r: "checkBadgeAchievements now uid db = (db', earned)"
  shows "User_findById db' uid =
             Some (u\<lparr>stats := (stats u)\<lparr>badges := badges (stats u) @ map b_id earned,
                      points := points (stats u) + int (sum_list (map b_points earned))\<rparr>\<rparr>) \<and>
         badge_sig db' = badge_sig db \<and>
         distinct (map b_id earned) \<and> set (map b_id earned) \<inter> set (badges (stats u)) = {}"
proof -
  have s: "\<forall>b \<in> set (filter b_isActive (Badge_docs db)).
             \<exists>t. map_of (badge_sig db) (b_id b) = Some (b_points b, t)"
    using badge_sig_of_doc[OF d] by auto
  from badgeLoop_result[OF u s r[unfolded checkBadgeAchievements_def]]
  show ?thesis by auto
qed

text \<open>
  Claim C6.  Let the award pass of \<open>submitVote\<close> run twice in succession for a user of a
  store whose badges have distinct identifiers.  Afterwards the user's document is the one
  before the passes with the identifiers of the badges earned in the two passes appended
  to its earned badges and the rewards of exactly those badges added to its points, every
  other field as it was; no identifier was earned twice, and none that the user held
  before was earned again, so a user without duplicate entries has none afterwards.
\<close>

theorem award_pass_twice:
  assumes "User_findById db uid = Some u"
    and "distinct (map b_id (Badge_docs db))"
    and "checkBadgeAchievements now uid db = (db1, earned1)"
    and "checkBadgeAchievements now' uid db1 = (db2, earned2)"
  shows "User_findById db2 uid =
           Some (u\<lparr>stats := (stats u)\<lparr>badges := badges (stats u) @ map b_id (earned1 @ earned2),
              points := points (stats u) + int (sum_list (map b_points (earned1 @ earned2)))\<rparr>\<rparr>) \<and>
         distinct (map b_id (earned1 @ earned2)) \<and>
         set (map b_id (earned1 @ earned2)) \<inter> set (badges (stats u)) = {} \<and>
         (distinct (badges (stats u)) \<longrightarrow>
            distinct (badges (stats u) @ map b_id (earned1 @ earned2)))"
proof -
  let ?u1 = "u\<lparr>stats := (stats u)\<lparr>badges := badges (stats u) @ map b_id earned1,
                      points := points (stats u) + int (sum_list (map b_points earned1))\<rparr>\<rparr>"
  from checkBadgeAchievements_result[OF assms(1,2,3)] have
    u1: "User_findById db1 uid = Some ?u1" and sg: "badge_sig db1 = badge_sig db" and
    d1: "distinct (map b_id earned1)" and j1: "set (map b_id earned1) \<inter> set (badges (stats u)) = {}"
    by auto
  have "map fst (badge_sig db1) = map fst (badge_sig db)" using sg by simp
  then have dd: "distinct (map b_id (Badge_docs db1))"
    using assms(2) by (simp add: badge_sig_def comp_def)
  from checkBadgeAchievements_result[OF u1 dd assms(4)] have
    u2: "User_findById db2 uid =
           Some (?u1\<lparr>stats := (stats ?u1)\<lparr>badges := badges (stats ?u1) @ map b_id earned2,
                      points := points (stats ?u1) + int (sum_list (map b_points earned2))\<rparr>\<rparr>)" and
    d2: "distinct (map b_id earned2)" and
    j2: "set (map b_id earned2) \<inter> set (badges (stats ?u1)) = {}"
    by auto
  show ?thesis
  proof (intro conjI impI)
    show "User_findById db2 uid =
           Some (u\<lparr>stats := (stats u)\<lparr>badges := badges (stats u) @ map b_id (earned1 @ earned2),
              points := points (stats u) + int (sum_list (map b_points (earned1 @ earned2)))\<rparr>\<rparr>)"
      using u2 by simp
    show dist: "distinct (map b_id (earned1 @ earned2))" using d1 d2 j2 by auto
    show disj: "set (map b_id (earned1 @ earned2)) \<inter> set (badges (stats u)) = {}"
      using j1 j2 by auto
    show "distinct (badges (stats u) @ map b_id (earned1 @ earned2))"
      if "distinct (badges (stats u))"
      using that dist disj by (simp only: distinct_append) blast
  qed
qed


text \<open>
  The theorem on the example store: the first pass awards badge 2 (reward 5), which
  brings the points to the threshold of badge 3; the second pass awards badge 3 (reward 7)
  and does not award badge 2 again.  The user ends with the badges 2 and 3 and 12 points.
\<close>

theorem award_pass_twice_witness:
  "User_findById ex_badge_db 1 = Some ex_voter \<and>
   distinct (map b_id (Badge_docs ex_badge_db)) \<and>
   map b_id (snd (checkBadgeAchievements 0 1 ex_badge_db)) = [2] \<and>
   map b_id (snd (checkBadgeAchievements 9 1 (fst (checkBadgeAchievements 0 1 ex_badge_db)))) = [3] \<and>
   map_option (\<lambda>u. (badges (stats u), points (stats u)))
     (User_findById (fst (checkBadgeAchievements 9 1 (fst (checkBadgeAchievements 0 1 ex_badge_db)))) 1)
     = Some ([2, 3], 12)"
proof -
  have h1: "User_findById ex_badge_db 1 = Some ex_voter" by code_simp
  have h2: "distinct (map b_id (Badge_docs ex_badge_db))" by code_simp
  have e1: "map b_id (snd (checkBadgeAchievements 0 1 ex_badge_db)) = [2]" by code_simp
  have e2: "map b_id (snd (checkBadgeAchievements 9 1 (fst (checkBadgeAchievements 0 1 ex_badge_db)))) = [3]"
    by code_simp
  have p: "map b_points (snd (checkBadgeAchievements 0 1 ex_badge_db)) = [5]"
    "map b_points (snd (checkBadgeAchievements 9 1 (fst (checkBadgeAchievements 0 1 ex_badge_db)))) = [7]"
    by code_simp+
  have v: "badges (stats ex_voter) = []" "points (stats ex_voter) = 0" by code_simp+
  note t = award_pass_twice[OF h1 h2 prod.collapse[symmetric] prod.collapse[symmetric],
      where now = 0 and now' = 9]
  have "User_findById (fst (checkBadgeAchievements 9 1 (fst (checkBadgeAchievements 0 1 ex_badge_db)))) 1
      = Some (ex_voter\<lparr>stats := (stats ex_voter)\<lparr>badges := [2, 3], points := 12\<rparr>\<rparr>)"
    using t unfolding map_append e1 e2 p v by simp
  then show ?thesis unfolding e1 e2 using h1 h2 by (simp add: v)
qed

text \<open>
  Claim C8.  For a stored badge whose requirement type is one of the two that the
  \<open>switch\<close> does not handle, the qualification check yields false; the loop iteration for
  it changes nothing and the loop goes on with the remaining badges exactly as if it had
  started with them; and no pass over any list of badges awards it.
\<close>

theorem unrecognized_requirement_skipped:
  assumes "Badge_findById db (b_id b) = Some b"
    and "req_type b = time_based \<or> req_type b = special_event"
  shows "\<not> checkUserQualification now db userId (b_id b) \<and>
         badgeLoop now userId (b # bs) db earned = badgeLoop now userId bs db earned \<and>
         b_id b \<notin> set (map b_id (snd (badgeLoop now userId bs db [])))"
proof (intro conjI)
  show c: "\<not> checkUserQualification now db userId (b_id b)"
    using assms checkUserQualification_recognized[of now db userId "b_id b"] by auto
  then show "badgeLoop now userId (b # bs) db earned = badgeLoop now userId bs db earned"
    by simp
  show "b_id b \<notin> set (map b_id (snd (badgeLoop now userId bs db [])))"
  proof
    assume m: "b_id b \<in> set (map b_id (snd (badgeLoop now userId bs db [])))"
    from badgeLoop_recognized[OF prod.collapse[symmetric], of now userId bs db "[]"]
    have "\<forall>x \<in> set (snd (badgeLoop now userId bs db [])).
            \<exists>p t. map_of (badge_sig db) (b_id x) = Some (p, t) \<and>
                t \<noteq> time_based \<and> t \<noteq> special_event"
      by auto
    with m obtain p t where "map_of (badge_sig db) (b_id b) = Some (p, t)"
      "t \<noteq> time_based \<and> t \<noteq> special_event"
      by auto
    with Badge_findById_sig[OF assms(1)] assms(2) show False by auto
  qed
qed

text \<open>
  The theorem on the example store: badge 4 is of type \<open>special_event\<close>; the pass skips
  it and still awards badge 2, which follows it.
\<close>

theorem unrecognized_requirement_skipped_witness:
  "Badge_findById ex_badge_db (b_id (ex_badge 4 special_event 1 50)) = Some (ex_badge 4 special_event 1 50) \<and>
   req_type (ex_badge 4 special_event 1 50) = special_event \<and>
   \<not> checkUserQualification 0 ex_badge_db 1 4 \<and>
   map b_id (snd (badgeLoop 0 1 [ex_badge 4 special_event 1 50, ex_badge 2 vote_count 1 5] ex_badge_db [])) = [2] \<and>
   4 \<notin> set (map b_id (snd (badgeLoop 0 1 (Badge_docs ex_badge_db) ex_badge_db [])))"
proof -
  have h1: "Badge_findById ex_badge_db (b_id (ex_badge 4 special_event 1 50)) = Some (ex_badge 4 special_event 1 50)"
    by code_simp
  have h2: "req_type (ex_badge 4 special_event 1 50) = time_based \<or> req_type (ex_badge 4 special_event 1 50) = special_event"
    by (simp add: ex_badge_def)
  have i: "b_id (ex_badge 4 special_event 1 50) = 4" by (simp add: ex_badge_def)
  have r: "map b_id (snd (badgeLoop 0 1 [ex_badge 2 vote_count 1 5] ex_badge_db [])) = [2]"
    by code_simp
  from unrecognized_requirement_skipped[OF h1 h2, of 0 1 "[ex_badge 2 vote_count 1 5]" "[]"]
    unrecognized_requirement_skipped[OF h1 h2, of 0 1 "Badge_docs ex_badge_db" "[]"]
    h1 r
  show ?thesis unfolding i by (simp add: ex_badge_def)
qed

section \<open>Votes: one per user and question\<close>

lemma awardToUser_frame:
  "Vote_docs (snd (awardToUser now db uid bid)) = Vote_docs db"
  "Question_docs (snd (awardToUser now db uid bid)) = Question_docs db"
  "ChatMessage_docs (snd (awardToUser now db uid bid)) = ChatMessage_docs db"
  by (simp_all add: awardToUser_def Let_def Badge_save_def User_save_def
      split: option.splits)

lemma badgeLoop_frame:
  "Vote_docs (fst (badgeLoop now uid bs db earned)) = Vote_docs db \<and>
   Question_docs (fst (badgeLoop now uid bs db earned)) = Question_docs db \<and>
   ChatMessage_docs (fst (badgeLoop now uid bs db earned)) = ChatMessage_docs db"
proof (induction bs arbitrary: db earned)
  case Nil
  show ?case by simp
next
  case (Cons b bs)
  show ?case
  proof (cases "checkUserQualification now db uid (b_id b)")
    case False
    then show ?thesis using Cons.IH[of db earned] by simp
  next
    case True
    obtain aw db1 where a: "awardToUser now db uid (b_id b) = (aw, db1)"
      by (cases "awardToUser now db uid (b_id b)")
    have f: "Vote_docs db1 = Vote_docs db" "Question_docs db1 = Question_docs db"
      "ChatMessage_docs db1 = ChatMessage_docs db"
      using awardToUser_frame[of now db uid "b_id b"] a by simp_all
    show ?thesis
      using True a Cons.IH[of db1 "if aw then earned @ [b] else earned"] f by simp
  qed
qed

lemma checkBadgeAchievements_frame:
  "Vote_docs (fst (checkBadgeAchievements now uid db)) = Vote_docs db"
  "Question_docs (fst (checkBadgeAchievements now uid db)) = Question_docs db"
  "ChatMessage_docs (fst (checkBadgeAchievements now uid db)) = ChatMessage_docs db"
  using badgeLoop_frame[of now uid "filter b_isActive (Badge_docs db)" db "[]"]
  by (simp_all add: checkBadgeAchievements_def)

lemma Vote_create_Inr:
  assumes "Vote_create db v = Inr p"
  shows "p = (v, db\<lparr>Vote_docs := Vote_docs db @ [v]\<rparr>) \<and>
         (v_userId v, v_questionId v) \<notin> set (map (\<lambda>x. (v_userId x, v_questionId x)) (Vote_docs db))"
  using assms by (auto simp: Vote_create_def list_ex_iff split: if_splits)






lemma find_Some_iff_ex: "find P xs \<noteq> None \<longleftrightarrow> list_ex P xs"
  by (induction xs) auto






section \<open>Changing a vote\<close>

lemma updateStats_q_id: "q_id (updateStats q) = q_id q"
  by (simp add: updateStats_def Let_def)











section \<open>What a vote change leaves alone\<close>

text \<open>
  Claim C10.  Whatever its outcome, \<open>changeVote\<close> leaves the collections of users,
  badges and chat messages exactly as they were: every user document, with its points,
  experience, level, vote count, streaks and earned badges, is the same before and after.
\<close>

theorem changeVote_leaves_users_unchanged:
  "User_docs (fst (snd (changeVote now req st))) = User_docs (fst st) \<and>
   Badge_docs (fst (snd (changeVote now req st))) = Badge_docs (fst st) \<and>
   ChatMessage_docs (fst (snd (changeVote now req st))) = ChatMessage_docs (fst st) \<and>
   (\<forall>uid. User_findById (fst (snd (changeVote now req st))) uid = User_findById (fst st) uid)"
  unfolding changeVote_def User_findById_def
  by (simp add: Let_def Vote_save_def Question_save_def split: option.splits sum.splits)

text \<open>
  The theorem at a successful change: user 10, who has 10 points, 10 experience, level 1
  and one counted vote after voting, has the same document after changing that vote.
\<close>

theorem changeVote_leaves_users_unchanged_witness:
  "\<not> isl (fst (changeVote 2000 (ex_req\<lparr>req_choice := optionB\<rparr>)
             (snd (submitVote 1000 ex_req (ex_db, ex_io))))) \<and>
   User_findById (fst (snd (changeVote 2000 (ex_req\<lparr>req_choice := optionB\<rparr>)
             (snd (submitVote 1000 ex_req (ex_db, ex_io)))))) 10 =
     User_findById (fst (snd (submitVote 1000 ex_req (ex_db, ex_io)))) 10 \<and>
   map_option (\<lambda>u. (points (stats u), experience (stats u), level (stats u),
                    votesCount (stats u), currentStreak (stats u), longestStreak (stats u),
                    badges (stats u)))
     (User_findById (fst (snd (submitVote 1000 ex_req (ex_db, ex_io)))) 10) =
     Some (10, 10, 1, 1, 0, 0, [])"
proof -
  have 1: "\<not> isl (fst (changeVote 2000 (ex_req\<lparr>req_choice := optionB\<rparr>)
             (snd (submitVote 1000 ex_req (ex_db, ex_io)))))"
    by code_simp
  have 2: "map_option (\<lambda>u. (points (stats u), experience (stats u), level (stats u),
                    votesCount (stats u), currentStreak (stats u), longestStreak (stats u),
                    badges (stats u)))
     (User_findById (fst (snd (submitVote 1000 ex_req (ex_db, ex_io)))) 10) =
     Some (10, 10, 1, 1, 0, 0, [])"
    by code_simp
  from changeVote_leaves_users_unchanged[of 2000 "ex_req\<lparr>req_choice := optionB\<rparr>"
      "snd (submitVote 1000 ex_req (ex_db, ex_io))"]
  have 3: "User_findById (fst (snd (changeVote 2000 (ex_req\<lparr>req_choice := optionB\<rparr>)
             (snd (submitVote 1000 ex_req (ex_db, ex_io)))))) 10 =
     User_findById (fst (snd (submitVote 1000 ex_req (ex_db, ex_io)))) 10"
    by blast
  from 1 3 2 show ?thesis by (intro conjI)
qed

section \<open>Delivery in a question room\<close>

lemma addVote_q_id: "addVote now q u c d = Inr q' \<Longrightarrow> q_id q' = q_id q"
  by (auto simp: addVote_def Let_def updateStats_q_id split: option.splits choice.splits)

lemma User_save_frame:
  "Question_docs (User_save db u) = Question_docs db"
  "Vote_docs (User_save db u) = Vote_docs db"
  by (simp_all add: User_save_def)

lemma submitVote_success:
  assumes "fst (submitVote now req (db, io)) = Inr r"
  shows "\<exists>q' voter rest.
      Question_findById (fst (snd (submitVote now req (db, io)))) (req_questionId req) = Some q' \<and>
      sent (snd (snd (submitVote now req (db, io)))) =
        sent io @ (rooms io (question_room (req_questionId req)),
                   vote_update (req_questionId req) (req_choice req) (totalVotes (q_stats q'))
                     (optionAPercentage (q_stats q')) (optionBPercentage (q_stats q'))
                     (Some voter) None) # rest"
proof -
  let ?qid = "req_questionId req" and ?uid = "req_userId req"
  from assms obtain q where q: "Question_findById db ?qid = Some q"
    unfolding submitVote_def by (auto simp: Let_def split: option.splits)
  from assms q have av: "q_isActive q" "q_moderationStatus q = approved"
    unfolding submitVote_def by (auto simp: Let_def split: option.splits if_splits)
  from assms q av have nv: "Vote_findOne db ?uid ?qid = None"
    unfolding submitVote_def by (auto simp: Let_def split: option.splits if_splits)
  let ?v = "\<lparr>v_userId = ?uid, v_questionId = ?qid, v_choice = req_choice req,
               v_decisionTime = orDefault (req_decisionTime req) 0,
               v_confidence = orDefault (req_confidence req) 3, v_createdAt = now\<rparr>"
  from assms q av nv obtain p where p: "Vote_create db ?v = Inr p"
    unfolding submitVote_def by (auto simp: Let_def split: option.splits if_splits sum.splits)
  from Vote_create_Inr[OF p] have p': "p = (?v, db\<lparr>Vote_docs := Vote_docs db @ [?v]\<rparr>)" by simp
  let ?db1 = "db\<lparr>Vote_docs := Vote_docs db @ [?v]\<rparr>"
  let ?d = "case req_decisionTime req of None \<Rightarrow> 0 | Some d \<Rightarrow> d"
  from assms q av nv p p' obtain q' where q': "addVote now q ?uid (req_choice req) ?d = Inr q'"
    unfolding submitVote_def by (auto simp: Let_def split: option.splits if_splits sum.splits)
  let ?db2 = "Question_save ?db1 q'"
  from assms q av nv p p' q' obtain user0 where u0: "User_findById ?db2 ?uid = Some user0"
    unfolding submitVote_def by (auto simp: Let_def split: option.splits if_splits sum.splits)
  let ?user3 = "fst (updateStreak now (fst (addPoints
        (user0\<lparr>stats := (stats user0)\<lparr>votesCount := votesCount (stats user0) + 1\<rparr>\<rparr>) 10)))"
  let ?db3 = "User_save ?db2 ?user3"
  let ?out = "checkBadgeAchievements now ?uid ?db3"
  let ?ev = "vote_update ?qid (req_choice req) (totalVotes (q_stats q'))
                     (optionAPercentage (q_stats q')) (optionBPercentage (q_stats q'))
                     (Some (username ?user3, avatar ?user3)) None"
  have res: "snd (submitVote now req (db, io)) =
      (fst ?out,
       (if snd ?out \<noteq> []
        then io_to_emit (io_to_emit io (question_room ?qid) ?ev) (user_room ?uid) (badges_earned (snd ?out))
        else io_to_emit io (question_room ?qid) ?ev))"
    using q av nv p q' u0 unfolding submitVote_def p'
    by (simp add: Let_def case_prod_beta)
  have qi: "q_id q' = ?qid"
    using addVote_q_id[OF q'] find_SomeD[of "\<lambda>x. q_id x = ?qid" "Question_docs db" q] q
    by (simp add: Question_findById_def)
  have "Question_docs (fst ?out) = Question_docs ?db2"
    by (simp add: checkBadgeAchievements_frame User_save_frame)
  then have fq: "Question_findById (fst (snd (submitVote now req (db, io)))) ?qid = Some q'"
    using q qi unfolding res Question_findById_def Question_save_def
    by (simp add: find_updateFirst_same)
  have "\<exists>rest. sent (snd (snd (submitVote now req (db, io)))) =
          sent io @ (rooms io (question_room ?qid), ?ev) # rest"
    unfolding res by (simp add: io_to_emit_def)
  with fq show ?thesis by blast
qed


text \<open>
  Claim C9.  A \<open>typing_start\<close> of a connection for a question is sent as \<open>user_typing\<close>
  with the sender's identity to the members of the question's room other than the sender:
  every other member is a recipient and the sender is not.  A \<open>submitVote\<close> that succeeds
  sends, as its first event, a \<open>vote_update\<close> with the total and percentages of the stored
  question to all members of the question's room, the voter's own connections among
  them.
\<close>

theorem room_delivery:
  "sent (on_typing_start io s qid) =
     sent io @ [(filter (\<lambda>i. i \<noteq> sock_id s) (rooms io (question_room qid)),
                 user_typing (u_id (sock_user s)) (username (sock_user s)) True)] \<and>
   sock_id s \<notin> set (fst (last (sent (on_typing_start io s qid)))) \<and>
   (\<forall>c \<in> set (rooms io (question_room qid)).
      c \<noteq> sock_id s \<longrightarrow> c \<in> set (fst (last (sent (on_typing_start io s qid))))) \<and>
   (\<forall>r. fst (submitVote now req (db, io)) = Inr r \<longrightarrow>
      (\<exists>q' voter rest.
         Question_findById (fst (snd (submitVote now req (db, io)))) (req_questionId req)
           = Some q' \<and>
         sent (snd (snd (submitVote now req (db, io)))) =
           sent io @ (rooms io (question_room (req_questionId req)),
                      vote_update (req_questionId req) (req_choice req) (totalVotes (q_stats q'))
                        (optionAPercentage (q_stats q')) (optionBPercentage (q_stats q'))
                        (Some voter) None) # rest))"
proof (intro conjI allI impI ballI)
  show e: "sent (on_typing_start io s qid) =
     sent io @ [(filter (\<lambda>i. i \<noteq> sock_id s) (rooms io (question_room qid)),
                 user_typing (u_id (sock_user s)) (username (sock_user s)) True)]"
    by (simp add: on_typing_start_def socket_to_emit_def)
  show "sock_id s \<notin> set (fst (last (sent (on_typing_start io s qid))))"
    unfolding e by simp
  show "c \<in> set (fst (last (sent (on_typing_start io s qid))))"
    if "c \<in> set (rooms io (question_room qid))" "c \<noteq> sock_id s" for c
    unfolding e using that by simp
  show "\<exists>q' voter rest.
         Question_findById (fst (snd (submitVote now req (db, io)))) (req_questionId req)
           = Some q' \<and>
         sent (snd (snd (submitVote now req (db, io)))) =
           sent io @ (rooms io (question_room (req_questionId req)),
                      vote_update (req_questionId req) (req_choice req) (totalVotes (q_stats q'))
                        (optionAPercentage (q_stats q')) (optionBPercentage (q_stats q'))
                        (Some voter) None) # rest"
    if "fst (submitVote now req (db, io)) = Inr r" for r
    using that by (rule submitVote_success)
qed

text \<open>
  The theorem with connections 1 and 2 in the room of question 5: the typing event of
  connection 1 goes to connection 2 alone; the vote of user 10, whose connection is 1, is
  announced to connections 1 and 2.
\<close>

theorem room_delivery_witness:
  "rooms ex_room_io (question_room 5) = [1, 2] \<and>
   sock_id ex_sockX = 1 \<and>
   fst (last (sent (on_typing_start ex_room_io ex_sockX 5))) = [2] \<and>
   snd (last (sent (on_typing_start ex_room_io ex_sockX 5))) = user_typing 10 ''ann'' True \<and>
   \<not> isl (fst (submitVote 1000 ex_req (ex_db, ex_room_io))) \<and>
   drop (length (sent ex_room_io)) (sent (snd (snd (submitVote 1000 ex_req (ex_db, ex_room_io)))))
     = [([1, 2], vote_update 5 optionA 1 100 0 (Some (''ann'', ''avatar.png'')) None)]"
proof -
  have r: "rooms ex_room_io (question_room 5) = [1, 2]" by code_simp
  have x: "sock_id ex_sockX = 1" by code_simp
  have u: "u_id (sock_user ex_sockX) = 10" "username (sock_user ex_sockX) = ''ann''"
    by code_simp+
  have m: "(2::nat) \<in> set (rooms ex_room_io (question_room 5))" "2 \<noteq> sock_id ex_sockX"
    unfolding r x by simp_all
  have ok: "\<not> isl (fst (submitVote 1000 ex_req (ex_db, ex_room_io)))" by code_simp
  have d: "drop (length (sent ex_room_io))
             (sent (snd (snd (submitVote 1000 ex_req (ex_db, ex_room_io)))))
     = [([1, 2], vote_update 5 optionA 1 100 0 (Some (''ann'', ''avatar.png'')) None)]"
    by code_simp
  note t = room_delivery[of ex_room_io ex_sockX 5 1000 ex_req ex_db]
  from t have "sent (on_typing_start ex_room_io ex_sockX 5) =
     sent ex_room_io @ [(filter (\<lambda>i. i \<noteq> sock_id ex_sockX) (rooms ex_room_io (question_room 5)),
                 user_typing (u_id (sock_user ex_sockX)) (username (sock_user ex_sockX)) True)]"
    by blast
  then have l: "last (sent (on_typing_start ex_room_io ex_sockX 5)) = ([2], user_typing 10 ''ann'' True)"
    unfolding r x u by simp
  from r x l ok d show ?thesis by simp
qed

section \<open>Disconnecting from a room\<close>

text \<open>
  The \<open>disconnect\<close> handler deletes the presence entry before it reads it back to find
  the current room, so the lookup never finds a room: whatever the state, the handler
  sends \<open>user_offline\<close> to the remaining connections and nothing else.
\<close>

lemma on_disconnect_sent:
  "sent (on_disconnect now io s) =
     sent io @ [(filter (\<lambda>i. i \<noteq> sock_id s)
                   (map sock_id (filter (\<lambda>x. sock_id x \<noteq> sock_id s) (sockets io))),
                 user_offline (u_id (sock_user s)) (username (sock_user s)) now)] \<and>
   activeUsers (on_disconnect now io s) (u_id (sock_user s)) = None"
  by (simp add: on_disconnect_def Let_def socket_broadcast_emit_def)

text \<open>
  Claim C7 asks for a \<open>user_left_room\<close> event to the room on the disconnect of a
  connection that is in a question room.  With connections 1 and 2 in the room of question
  5, the disconnect of connection 1 at time 9000 removes the presence entry of user 10 and
  sends connection 2 the \<open>user_offline\<close> event with that time, and no \<open>user_left_room\<close>;
  the explicit \<open>leave_question\<close> in the same state does send it.
\<close>

theorem disconnect_in_room_emits_no_user_left_room:
  "map_option au_currentRoom (activeUsers ex_room_io 10) = Some (Some (question_room 5)) \<and>
   rooms ex_room_io (question_room 5) = [1, 2] \<and>
   drop (length (sent ex_room_io)) (sent (on_disconnect 9000 ex_room_io ex_sockX)) =
     [([2], user_offline 10 ''ann'' 9000)] \<and>
   activeUsers (on_disconnect 9000 ex_room_io ex_sockX) 10 = None \<and>
   drop (length (sent ex_room_io)) (sent (on_leave_question ex_room_io ex_sockX 5)) =
     [([2], user_left_room 10 ''ann'')]"
  by code_simp

end
